theory Spec2Isabelle
  imports Main "HOL-Library.Multiset" "HOL-Library.Char_ord" "HOL-Library.List_Lexorder"
begin

section \<open>The letter scanner of app.py\<close>

text \<open>
  The program is one Flask module with three route handlers over one SQLite table and
  one external inference service. The handlers are modelled as functions of everything
  they read: the configured key, the request, the outcome of the library and service
  calls, the clock and the table. A raised Python exception is the left injection of a
  sum, carrying \<open>str(e)\<close>; the table is passed in and returned.

  Text is a list of bytes (the UTF-8 encoding); the fence markers, the comma and the digits
  of a timestamp are ASCII, so slicing by 7 and by 3 characters is slicing by 7 and 3 bytes.
\<close>

subsection \<open>Values\<close>

type_synonym exn = string

type_synonym bytes = string

text \<open>A Python float is carried, never computed with: only its truth value is read.\<close>

datatype pyfloat = Finite int int | Infinite bool | NaN

datatype json =
    JNull
  | JBool bool
  | JInt int
  | JFloat pyfloat
  | JStr string
  | JArr "json list"
  | JObj "(string \<times> json) list"

type_synonym response = "nat \<times> json"

definition jsonify :: "json \<Rightarrow> response" where
  "jsonify body = (200, body)"

fun type_name :: "json \<Rightarrow> string" where
  "type_name JNull = ''NoneType''"
| "type_name (JBool _) = ''bool''"
| "type_name (JInt _) = ''int''"
| "type_name (JFloat _) = ''float''"
| "type_name (JStr _) = ''str''"
| "type_name (JArr _) = ''list''"
| "type_name (JObj _) = ''dict''"

definition quoted :: "string \<Rightarrow> string" where
  "quoted s = CHR 0x27 # s @ [CHR 0x27]"

definition attribute_error :: "json \<Rightarrow> string \<Rightarrow> exn" where
  "attribute_error v a = quoted (type_name v) @ '' object has no attribute '' @ quoted a"

text \<open>Python's truth value, as \<open>if not image_data\<close> and \<open>if GEMINI_API_KEY\<close> test it.\<close>

fun truthy :: "json \<Rightarrow> bool" where
  "truthy JNull = False"
| "truthy (JBool b) = b"
| "truthy (JInt i) = (i \<noteq> 0)"
| "truthy (JFloat (Finite m e)) = (m \<noteq> 0)"
| "truthy (JFloat _) = True"
| "truthy (JStr s) = (s \<noteq> [])"
| "truthy (JArr xs) = (xs \<noteq> [])"
| "truthy (JObj d) = (d \<noteq> [])"

definition key_configured :: "string option \<Rightarrow> bool" where
  "key_configured k = (case k of None \<Rightarrow> False | Some s \<Rightarrow> s \<noteq> [])"

subsection \<open>Dictionaries\<close>

definition dict_get :: "(string \<times> json) list \<Rightarrow> string \<Rightarrow> json" where
  "dict_get d k = (case map_of d k of None \<Rightarrow> JNull | Some v \<Rightarrow> v)"

fun dict_set :: "(string \<times> json) list \<Rightarrow> string \<Rightarrow> json \<Rightarrow> (string \<times> json) list" where
  "dict_set [] k v = [(k, v)]"
| "dict_set ((k', v') # d) k v = (if k' = k then (k, v) # d else (k', v') # dict_set d k v)"

text \<open>\<open>x.get(k)\<close>: only a dict has the method.\<close>

definition py_get :: "json \<Rightarrow> string \<Rightarrow> exn + json" where
  "py_get x k = (case x of JObj d \<Rightarrow> Inr (dict_get d k) | _ \<Rightarrow> Inl (attribute_error x ''get''))"

subsection \<open>Strings\<close>

definition startswith :: "string \<Rightarrow> string \<Rightarrow> bool" where
  "startswith s p = (take (length p) s = p)"

definition endswith :: "string \<Rightarrow> string \<Rightarrow> bool" where
  "endswith s p = (length p \<le> length s \<and> drop (length s - length p) s = p)"

text \<open>\<open>s.split(sep)\<close> for a separator of one character.\<close>

fun split :: "char \<Rightarrow> string \<Rightarrow> string list" where
  "split sep [] = [[]]"
| "split sep (c # cs) =
     (if c = sep then [] # split sep cs
      else (case split sep cs of [] \<Rightarrow> [[c]] | p # ps \<Rightarrow> (c # p) # ps))"

definition py_index :: "'a list \<Rightarrow> nat \<Rightarrow> exn + 'a" where
  "py_index xs i = (if i < length xs then Inr (xs ! i) else Inl ''list index out of range'')"

definition json_fence :: string where
  "json_fence = ''```json''"

definition closing_fence :: string where
  "closing_fence = ''```''"

text \<open>Lines 90 to 93: the two independent tests, the second on the result of the first.\<close>

definition clean_markdown :: "string \<Rightarrow> string" where
  "clean_markdown text_response =
     (let t1 = (if startswith text_response json_fence then drop 7 text_response
                else text_response)
      in if endswith t1 closing_fence then take (length t1 - 3) t1 else t1)"

text \<open>
  Lines 61 and 62: \<open>',' in image_data\<close> and \<open>image_data.split(',')[1]\<close>, on whatever
  JSON value the request carried (the value is truthy here).
\<close>

definition remove_header :: "json \<Rightarrow> exn + json" where
  "remove_header image_data =
     (case image_data of
        JStr s \<Rightarrow>
          (if CHR '','' \<in> set s
           then (case py_index (split (CHR '','') s) 1 of
                   Inl e \<Rightarrow> Inl e | Inr part \<Rightarrow> Inr (JStr part))
           else Inr (JStr s))
      | JArr xs \<Rightarrow>
          (if JStr '','' \<in> set xs then Inl (attribute_error image_data ''split'')
           else Inr image_data)
      | JObj d \<Rightarrow>
          (if '','' \<in> set (map fst d) then Inl (attribute_error image_data ''split'')
           else Inr image_data)
      | _ \<Rightarrow> Inl (''argument of type '' @ quoted (type_name image_data) @ '' is not iterable''))"

subsection \<open>The table \<open>letters\<close>\<close>

text \<open>
  What \<open>sqlite3\<close> binds for a Python value. A list or a dict is refused
  (\<open>ProgrammingError\<close>), an integer outside 64 bits too (\<open>OverflowError\<close>). The row keeps
  the value as bound; the rendering of a number in a TEXT column is the engine's.
\<close>

datatype sqlval = SqlNull | SqlInteger int | SqlReal pyfloat | SqlText string

definition bind_parameter :: "string \<Rightarrow> json \<Rightarrow> exn + sqlval" where
  "bind_parameter pos v =
     (case v of
        JNull \<Rightarrow> Inr SqlNull
      | JBool b \<Rightarrow> Inr (SqlInteger (if b then 1 else 0))
      | JInt i \<Rightarrow>
          (if - (2 ^ 63) \<le> i \<and> i < 2 ^ 63 then Inr (SqlInteger i)
           else Inl ''Python int too large to convert to SQLite INTEGER'')
      | JFloat f \<Rightarrow> Inr (SqlReal f)
      | JStr s \<Rightarrow> Inr (SqlText s)
      | _ \<Rightarrow> Inl (''Error binding parameter '' @ pos @ '': type '' @ quoted (type_name v)
                   @ '' is not supported''))"

record letter =
  letter_id :: int
  scan_date :: string
  send_date :: sqlval
  sender_name :: sqlval
  sender_address :: sqlval
  recipient_name :: sqlval
  recipient_address :: sqlval

text \<open>
  The database file: the rows of \<open>letters\<close> in rowid order, and the entry of
  \<open>sqlite_sequence\<close> that AUTOINCREMENT keeps (the largest rowid ever given out).
  The file is taken to open and to accept writes: a failing \<open>sqlite3.connect\<close> or
  \<open>commit\<close> is not part of the model.
\<close>

record db =
  letters :: "letter list"
  sqlite_sequence :: int

text \<open>\<open>CREATE TABLE IF NOT EXISTS\<close>: \<open>None\<close> is a file without the table.\<close>

definition init_db :: "db option \<Rightarrow> db" where
  "init_db file = (case file of None \<Rightarrow> \<lparr>letters = [], sqlite_sequence = 0\<rparr> | Some d \<Rightarrow> d)"

definition max_rowid :: "letter list \<Rightarrow> int" where
  "max_rowid rows = fold (\<lambda>r m. max (letter_id r) m) rows 0"

definition largest_rowid :: "db \<Rightarrow> int" where
  "largest_rowid d = max (sqlite_sequence d) (max_rowid (letters d))"

text \<open>
  The INSERT of lines 104 to 116 with its parameters bound in order, the commit and
  \<open>cur.lastrowid\<close>. AUTOINCREMENT takes one more than the largest rowid that ever
  existed and refuses (SQLITE_FULL) once the largest 64-bit rowid has been used.
\<close>

definition execute_insert ::
  "db \<Rightarrow> string \<Rightarrow> json \<Rightarrow> json \<Rightarrow> json \<Rightarrow> json \<Rightarrow> json \<Rightarrow> exn + (db \<times> int)" where
  "execute_insert d sd p2 p3 p4 p5 p6 =
     (case bind_parameter ''2'' p2 of Inl e \<Rightarrow> Inl e | Inr v2 \<Rightarrow>
     (case bind_parameter ''3'' p3 of Inl e \<Rightarrow> Inl e | Inr v3 \<Rightarrow>
     (case bind_parameter ''4'' p4 of Inl e \<Rightarrow> Inl e | Inr v4 \<Rightarrow>
     (case bind_parameter ''5'' p5 of Inl e \<Rightarrow> Inl e | Inr v5 \<Rightarrow>
     (case bind_parameter ''6'' p6 of Inl e \<Rightarrow> Inl e | Inr v6 \<Rightarrow>
       (let largest = largest_rowid d
        in if 2 ^ 63 - 1 \<le> largest then Inl ''database or disk is full''
           else (let new_id = largest + 1;
                     row = \<lparr>letter_id = new_id, scan_date = sd, send_date = v2,
                            sender_name = v3, sender_address = v4,
                            recipient_name = v5, recipient_address = v6\<rparr>
                 in Inr (d\<lparr>letters := letters d @ [row], sqlite_sequence := new_id\<rparr>,
                         new_id))))))))"

text \<open>
  \<open>ORDER BY scan_date DESC\<close>: TEXT under the BINARY collation compares bytewise. The
  query names no second key; the engine scans the table in rowid order and its sorter
  keeps rows with equal keys in scan order, which is what a stable insertion gives.
\<close>

fun insert_desc :: "letter \<Rightarrow> letter list \<Rightarrow> letter list" where
  "insert_desc r [] = [r]"
| "insert_desc r (x # xs) =
     (if scan_date r < scan_date x then x # insert_desc r xs else r # x # xs)"

definition order_by_scan_date_desc :: "letter list \<Rightarrow> letter list" where
  "order_by_scan_date_desc rows = foldr insert_desc rows []"

fun sqlval_json :: "sqlval \<Rightarrow> json" where
  "sqlval_json SqlNull = JNull"
| "sqlval_json (SqlInteger i) = JInt i"
| "sqlval_json (SqlReal f) = JFloat f"
| "sqlval_json (SqlText s) = JStr s"

text \<open>\<open>dict(ix)\<close> of a \<open>sqlite3.Row\<close>: the columns in the table's order.\<close>

definition row_dict :: "letter \<Rightarrow> json" where
  "row_dict r = JObj
     [(''id'', JInt (letter_id r)),
      (''scan_date'', JStr (scan_date r)),
      (''send_date'', sqlval_json (send_date r)),
      (''sender_name'', sqlval_json (sender_name r)),
      (''sender_address'', sqlval_json (sender_address r)),
      (''recipient_name'', sqlval_json (recipient_name r)),
      (''recipient_address'', sqlval_json (recipient_address r))]"

definition fetchall :: "db \<Rightarrow> letter list" where
  "fetchall d = order_by_scan_date_desc (letters d)"

definition get_history :: "db \<Rightarrow> response" where
  "get_history d = jsonify (JArr (map row_dict (fetchall d)))"

subsection \<open>The inference service and the libraries\<close>

record usage =
  prompt_token_count :: int
  candidates_token_count :: int
  total_token_count :: int

text \<open>
  The object \<open>generate_content\<close> returns: reading \<open>.text\<close> gives the text or raises,
  and \<open>usage_metadata\<close> is \<open>None\<close> when the object has no such attribute.
\<close>

record ai_response =
  resp_text :: "exn + string"
  usage_metadata :: "usage option"

text \<open>
  What the process is started with: the key from the environment, and the two library
  functions the handler calls, each returning its value or the exception it raises.
\<close>

record env =
  GEMINI_API_KEY :: "string option"
  b64decode :: "string \<Rightarrow> exn + bytes"
  json_loads :: "string \<Rightarrow> exn + json"

text \<open>
  What one call of \<open>/api/scan\<close> meets: \<open>request.json\<close> (or what Flask raises), the
  service's answer to the image sent with the fixed prompt, and the clock already
  formatted as \<open>%Y-%m-%d %H:%M:%S\<close>.
\<close>

record scan_call =
  request_json :: "exn + json"
  generate_content :: "bytes \<Rightarrow> exn + ai_response"
  now :: string

subsection \<open>\<open>/api/scan\<close>\<close>

text \<open>Line 64. \<open>base64.b64decode\<close> takes a string; a list or a dict is a TypeError.\<close>

definition decode_image :: "env \<Rightarrow> json \<Rightarrow> exn + bytes" where
  "decode_image c image_data =
     (case image_data of
        JStr s \<Rightarrow> b64decode c s
      | _ \<Rightarrow> Inl (''argument should be a bytes-like object or ASCII string, not ''
                   @ quoted (type_name image_data)))"

text \<open>Lines 88 to 95, the body of the inner \<open>try\<close>.\<close>

definition parse_response :: "env \<Rightarrow> ai_response \<Rightarrow> exn + json" where
  "parse_response c response =
     (case resp_text response of
        Inl e \<Rightarrow> Inl e
      | Inr text_response \<Rightarrow> json_loads c (clean_markdown text_response))"

text \<open>Lines 119 to 128.\<close>

definition usage_dict :: "usage \<Rightarrow> json" where
  "usage_dict u = JObj
     [(''prompt_token_count'', JInt (prompt_token_count u)),
      (''candidates_token_count'', JInt (candidates_token_count u)),
      (''total_token_count'', JInt (total_token_count u))]"

definition enrich ::
  "(string \<times> json) list \<Rightarrow> int \<Rightarrow> string \<Rightarrow> usage option \<Rightarrow> (string \<times> json) list" where
  "enrich extracted_data new_id sd um =
     (let d1 = dict_set extracted_data ''id'' (JInt new_id);
          d2 = dict_set d1 ''scan_date'' (JStr sd)
      in case um of None \<Rightarrow> d2 | Some u \<Rightarrow> dict_set d2 ''usage'' (usage_dict u))"

text \<open>
  Lines 99 to 130: the five \<open>.get\<close> calls are evaluated before \<open>execute\<close> runs, and
  raise when the parsed value is not a dict.
\<close>

definition save_and_respond ::
  "scan_call \<Rightarrow> ai_response \<Rightarrow> json \<Rightarrow> db \<Rightarrow> (exn + response) \<times> db" where
  "save_and_respond w response extracted_data d =
     (case extracted_data of
        JObj ed \<Rightarrow>
          (case execute_insert d (now w)
                  (dict_get ed ''send_date'') (dict_get ed ''sender_name'')
                  (dict_get ed ''sender_address'') (dict_get ed ''recipient_name'')
                  (dict_get ed ''recipient_address'') of
             Inl e \<Rightarrow> (Inl e, d)
           | Inr (d', new_id) \<Rightarrow>
               (Inr (jsonify (JObj (enrich ed new_id (now w) (usage_metadata response)))), d'))
      | _ \<Rightarrow> (Inl (attribute_error extracted_data ''get''), d))"

text \<open>
  Lines 87 to 130. In the handler of the inner \<open>try\<close>, \<open>response.text\<close> is read again
  for the error body, and raises again if it raised before.
\<close>

definition handle_response ::
  "env \<Rightarrow> scan_call \<Rightarrow> ai_response \<Rightarrow> db \<Rightarrow> (exn + response) \<times> db" where
  "handle_response c w response d =
     (case parse_response c response of
        Inl e \<Rightarrow>
          (case resp_text response of
             Inl e2 \<Rightarrow> (Inl e2, d)
           | Inr raw \<Rightarrow>
               (Inr (500, JObj [(''error'', JStr (''Failed to parse AI response: '' @ e)),
                                (''raw_response'', JStr raw)]), d))
      | Inr extracted_data \<Rightarrow> save_and_respond w response extracted_data d)"

text \<open>Lines 64 to 130, from the payload left after the header test.\<close>

definition decode_and_extract ::
  "env \<Rightarrow> scan_call \<Rightarrow> json \<Rightarrow> db \<Rightarrow> (exn + response) \<times> db" where
  "decode_and_extract c w image_data d =
     (case decode_image c image_data of
        Inl e \<Rightarrow> (Inl e, d)
      | Inr image_bytes \<Rightarrow>
          (case generate_content w image_bytes of
             Inl e \<Rightarrow> (Inl e, d)
           | Inr response \<Rightarrow> handle_response c w response d))"

text \<open>Lines 54 to 130, the body of the outer \<open>try\<close>.\<close>

definition try_scan :: "env \<Rightarrow> scan_call \<Rightarrow> db \<Rightarrow> (exn + response) \<times> db" where
  "try_scan c w d =
     (case request_json w of
        Inl e \<Rightarrow> (Inl e, d)
      | Inr data \<Rightarrow>
          (case py_get data ''image'' of
             Inl e \<Rightarrow> (Inl e, d)
           | Inr image_data \<Rightarrow>
               (if \<not> truthy image_data
                then (Inr (400, JObj [(''error'', JStr ''No image provided'')]), d)
                else (case remove_header image_data of
                        Inl e \<Rightarrow> (Inl e, d)
                      | Inr image_data' \<Rightarrow> decode_and_extract c w image_data' d))))"

text \<open>Lines 132 and 133: whatever the body raised becomes a 500 with its message.\<close>

definition catch_all :: "(exn + response) \<times> db \<Rightarrow> response \<times> db" where
  "catch_all outcome =
     (case outcome of
        (Inr r, d') \<Rightarrow> (r, d')
      | (Inl e, d') \<Rightarrow> ((500, JObj [(''error'', JStr e)]), d'))"

definition scan_letter :: "env \<Rightarrow> scan_call \<Rightarrow> db \<Rightarrow> response \<times> db" where
  "scan_letter c w d =
     (if \<not> key_configured (GEMINI_API_KEY c)
      then ((500, JObj [(''error'',
               JStr ''Gemini API Key not configured. Please check .env file.'')]), d)
      else catch_all (try_scan c w d))"

subsection \<open>\<open>/api/status\<close>\<close>

text \<open>
  \<open>list_models\<close> is the outcome of the probe if it is made; the second component of the
  result counts the calls made to the service.
\<close>

definition status_body :: "bool \<Rightarrow> json" where
  "status_body connected =
     JObj [(''gemini_connected'', JBool connected), (''model'', JStr ''gemini-2.0-flash'')]"

definition check_status :: "env \<Rightarrow> exn + unit \<Rightarrow> response \<times> nat" where
  "check_status c list_models =
     (if key_configured (GEMINI_API_KEY c)
      then (case list_models of
              Inr _ \<Rightarrow> (jsonify (status_body True), 1)
            | Inl _ \<Rightarrow> (jsonify (status_body False), 1))
      else (jsonify (status_body False), 0))"

subsection \<open>Runs and test doubles\<close>

text \<open>A sequence of \<open>/api/scan\<close> calls against one database file, one after the other.\<close>

fun serve :: "env \<Rightarrow> db \<Rightarrow> scan_call list \<Rightarrow> response list \<times> db" where
  "serve c d [] = ([], d)"
| "serve c d (w # ws) =
     (case scan_letter c w d of
        (r, d') \<Rightarrow> (case serve c d' ws of (rs, d'') \<Rightarrow> (r # rs, d'')))"

text \<open>The id a response reports: the \<open>id\<close> entry of a 200 body.\<close>

definition assigned_id :: "response \<Rightarrow> int option" where
  "assigned_id r =
     (case r of
        (st, JObj body) \<Rightarrow>
          (if st = 200
           then (case map_of body ''id'' of Some (JInt n) \<Rightarrow> Some n | _ \<Rightarrow> None)
           else None)
      | _ \<Rightarrow> None)"

definition assigned_ids :: "response list \<Rightarrow> int list" where
  "assigned_ids rs = List.map_filter assigned_id rs"

text \<open>
  Stand-ins for the libraries and the service, for running the handlers on concrete
  input: a decoder that knows one payload, a parser that knows two documents.
\<close>

definition stub_env :: "string option \<Rightarrow> env" where
  "stub_env k =
     \<lparr>GEMINI_API_KEY = k,
      b64decode = (\<lambda>s. if s = ''AAAA'' then Inr [CHR 0x00, CHR 0x00, CHR 0x00]
                        else Inl ''Incorrect padding''),
      json_loads = (\<lambda>s. if s = ''{}'' then Inr (JObj [])
                         else if s = ''[]'' then Inr (JArr [])
                         else Inl ''Expecting value: line 1 column 1 (char 0)'')\<rparr>"

definition stub_call :: "json \<Rightarrow> string \<Rightarrow> string \<Rightarrow> scan_call" where
  "stub_call body reply clock =
     \<lparr>request_json = Inr body,
      generate_content = (\<lambda>image_bytes. Inr \<lparr>resp_text = Inr reply, usage_metadata = None\<rparr>),
      now = clock\<rparr>"

definition empty_db :: db where
  "empty_db = init_db None"

text \<open>A table that has been in use: one row left, with id 5, and ids up to 7 given out.\<close>

definition used_db :: db where
  "used_db = \<lparr>letters = [\<lparr>letter_id = 5, scan_date = ''2024-01-01 09:00:00'',
       send_date = SqlNull, sender_name = SqlText ''Alice'', sender_address = SqlNull,
       recipient_name = SqlText ''Bob'', recipient_address = SqlNull\<rparr>],
     sqlite_sequence = 7\<rparr>"

section \<open>Lemmas\<close>

subsection \<open>Fences, commas and ordering\<close>

lemma clean_markdown_fenced: "clean_markdown (json_fence @ J @ closing_fence) = J"
proof -
  have l: "length json_fence = 7" by (simp add: json_fence_def)
  have s: "startswith (json_fence @ J @ closing_fence) json_fence"
    by (simp add: startswith_def)
  have d: "drop 7 (json_fence @ J @ closing_fence) = J @ closing_fence"
    using l by simp
  have e: "endswith (J @ closing_fence) closing_fence"
    by (simp add: endswith_def)
  have t: "take (length (J @ closing_fence) - 3) (J @ closing_fence) = J"
    by (simp add: closing_fence_def)
  show ?thesis
    unfolding clean_markdown_def Let_def using s d e t by simp
qed

lemma clean_markdown_plain:
  "\<not> startswith J json_fence \<Longrightarrow> \<not> endswith J closing_fence \<Longrightarrow> clean_markdown J = J"
  by (simp add: clean_markdown_def)






lemma mset_insert_desc: "mset (insert_desc r xs) = add_mset r (mset xs)"
  by (induction xs) auto

lemma set_insert_desc: "set (insert_desc r xs) = insert r (set xs)"
  by (induction xs) auto

lemma sorted_insert_desc:
  "sorted_wrt (\<lambda>a b. scan_date b \<le> scan_date a) xs \<Longrightarrow>
   sorted_wrt (\<lambda>a b. scan_date b \<le> scan_date a) (insert_desc r xs)"
  by (induction xs) (auto simp: set_insert_desc)

lemma filter_insert_desc:
  "sorted_wrt (\<lambda>a b. scan_date b \<le> scan_date a) xs \<Longrightarrow>
   filter (\<lambda>x. scan_date x = s) (insert_desc r xs) = filter (\<lambda>x. scan_date x = s) (r # xs)"
  by (induction xs) (auto simp: filter_empty_conv)

lemma mset_order_by: "mset (order_by_scan_date_desc rows) = mset rows"
  by (induction rows) (auto simp: order_by_scan_date_desc_def mset_insert_desc)

lemma sorted_order_by:
  "sorted_wrt (\<lambda>a b. scan_date b \<le> scan_date a) (order_by_scan_date_desc rows)"
  by (induction rows) (auto simp: order_by_scan_date_desc_def sorted_insert_desc)

lemma filter_order_by:
  "filter (\<lambda>x. scan_date x = s) (order_by_scan_date_desc rows) = filter (\<lambda>x. scan_date x = s) rows"
proof (induction rows)
  case Nil
  show ?case by (simp add: order_by_scan_date_desc_def)
next
  case (Cons r rows)
  have "order_by_scan_date_desc (r # rows) = insert_desc r (order_by_scan_date_desc rows)"
    by (simp add: order_by_scan_date_desc_def)
  then show ?case
    using Cons filter_insert_desc [OF sorted_order_by, of s r rows] by simp
qed

subsection \<open>Row ids and the effect of one call\<close>

lemma fold_max_rowid:
  "a \<le> fold (\<lambda>r m. max (letter_id r) m) rows a \<and>
   (\<forall>r\<in>set rows. letter_id r \<le> fold (\<lambda>r m. max (letter_id r) m) rows a)"
proof (induction rows arbitrary: a)
  case Nil
  show ?case by simp
next
  case (Cons x rows)
  have "max (letter_id x) a \<le> fold (\<lambda>r m. max (letter_id r) m) rows (max (letter_id x) a)"
    using Cons [of "max (letter_id x) a"] by blast
  then show ?case using Cons [of "max (letter_id x) a"] by auto
qed

lemma letter_id_le_largest: "r \<in> set (letters d) \<Longrightarrow> letter_id r \<le> largest_rowid d"
  using fold_max_rowid [of 0 "letters d"] by (auto simp: largest_rowid_def max_rowid_def)

lemma sequence_le_largest: "sqlite_sequence d \<le> largest_rowid d"
  by (simp add: largest_rowid_def)

lemma max_rowid_snoc: "max_rowid (rows @ [r]) = max (letter_id r) (max_rowid rows)"
  by (simp add: max_rowid_def)

lemma execute_insert_Inr:
  assumes "execute_insert d sd p2 p3 p4 p5 p6 = Inr (d', n)"
  shows "n = largest_rowid d + 1 \<and> sqlite_sequence d' = n \<and>
         letters d' = letters d @ [last (letters d')] \<and>
         letter_id (last (letters d')) = n \<and> scan_date (last (letters d')) = sd"
  using assms
  by (auto simp: execute_insert_def Let_def split: sum.splits if_splits)

lemma execute_insert_largest:
  assumes "execute_insert d sd p2 p3 p4 p5 p6 = Inr (d', n)"
  shows "largest_rowid d' = n"
proof -
  from execute_insert_Inr [OF assms]
  have n: "n = largest_rowid d + 1" and s: "sqlite_sequence d' = n"
    and l: "letters d' = letters d @ [last (letters d')]"
    and i: "letter_id (last (letters d')) = n"
    by simp_all
  have "max_rowid (letters d') = max n (max_rowid (letters d))"
    using l i max_rowid_snoc [of "letters d" "last (letters d')"] by simp
  moreover have "max_rowid (letters d) \<le> largest_rowid d"
    by (simp add: largest_rowid_def)
  ultimately show ?thesis
    using n s by (simp add: largest_rowid_def [of d'])
qed

lemma map_of_dict_set: "map_of (dict_set d k v) = (map_of d)(k \<mapsto> v)"
  by (induction d) auto

lemma assigned_id_enrich: "assigned_id (jsonify (JObj (enrich ed n sd um))) = Some n"
  by (cases um) (simp_all add: assigned_id_def jsonify_def enrich_def Let_def map_of_dict_set)


text \<open>What one call does to the table: nothing, or one row with the next id.\<close>

lemma save_and_respond_effect:
  assumes "save_and_respond w response v d = (out, d')"
  shows "(d' = d \<and> (\<exists>e. out = Inl e)) \<or>
         (\<exists>r. out = Inr r \<and> assigned_id r = Some (largest_rowid d + 1) \<and>
              largest_rowid d' = largest_rowid d + 1 \<and>
              letters d' = letters d @ [last (letters d')] \<and>
              letter_id (last (letters d')) = largest_rowid d + 1 \<and>
              scan_date (last (letters d')) = now w)"
proof (cases v)
  case (JObj ed)
  show ?thesis
  proof (cases "execute_insert d (now w)
                  (dict_get ed ''send_date'') (dict_get ed ''sender_name'')
                  (dict_get ed ''sender_address'') (dict_get ed ''recipient_name'')
                  (dict_get ed ''recipient_address'')")
    case (Inl e)
    then show ?thesis using assms JObj by (auto simp: save_and_respond_def)
  next
    case (Inr p)
    obtain d2 n where p: "p = (d2, n)" by (cases p)
    have out: "out = Inr (jsonify (JObj (enrich ed n (now w) (usage_metadata response))))"
      and d2: "d' = d2"
      using assms JObj Inr p by (simp_all add: save_and_respond_def)
    from execute_insert_Inr [OF Inr [unfolded p]] execute_insert_largest [OF Inr [unfolded p]]
    show ?thesis
      using out d2 by (simp add: assigned_id_enrich)
  qed
qed (use assms in \<open>auto simp: save_and_respond_def\<close>)


lemma handle_response_effect:
  assumes "handle_response c w response d = (out, d')"
  shows "(d' = d \<and> assigned_id (fst (catch_all (out, d'))) = None) \<or>
         (\<exists>r. out = Inr r \<and> assigned_id r = Some (largest_rowid d + 1) \<and>
              largest_rowid d' = largest_rowid d + 1 \<and>
              letters d' = letters d @ [last (letters d')] \<and>
              letter_id (last (letters d')) = largest_rowid d + 1 \<and>
              scan_date (last (letters d')) = now w)"
proof (cases "parse_response c response")
  case (Inl e)
  then show ?thesis
    using assms
    by (auto simp: handle_response_def catch_all_def assigned_id_def split: sum.splits)
next
  case (Inr v)
  then have "save_and_respond w response v d = (out, d')"
    using assms by (simp add: handle_response_def)
  from save_and_respond_effect [OF this] show ?thesis
    by (auto simp: catch_all_def assigned_id_def)
qed

lemma try_scan_effect:
  assumes "try_scan c w d = (out, d')"
  shows "(d' = d \<and> assigned_id (fst (catch_all (out, d'))) = None) \<or>
         (\<exists>r. out = Inr r \<and> assigned_id r = Some (largest_rowid d + 1) \<and>
              largest_rowid d' = largest_rowid d + 1 \<and>
              letters d' = letters d @ [last (letters d')] \<and>
              letter_id (last (letters d')) = largest_rowid d + 1 \<and>
              scan_date (last (letters d')) = now w)"
proof -
  have early: "out = Inl e \<Longrightarrow> d' = d \<Longrightarrow> ?thesis" for e
    by (simp add: catch_all_def assigned_id_def)
  have bad: "out = Inr (400, b) \<Longrightarrow> d' = d \<Longrightarrow> ?thesis" for b
    by (simp add: catch_all_def assigned_id_def split: json.splits)
  show ?thesis
    using assms early bad handle_response_effect [of c w _ d out d']
    unfolding try_scan_def decode_and_extract_def
    by (auto split: sum.splits if_splits simp del: Not_eq_iff) 
qed

lemma scan_letter_effect:
  assumes "scan_letter c w d = (r, d')"
  shows "(d' = d \<and> assigned_id r = None) \<or>
         (assigned_id r = Some (largest_rowid d + 1) \<and>
          largest_rowid d' = largest_rowid d + 1 \<and>
          letters d' = letters d @ [last (letters d')] \<and>
          letter_id (last (letters d')) = largest_rowid d + 1 \<and>
          scan_date (last (letters d')) = now w)"
proof (cases "key_configured (GEMINI_API_KEY c)")
  case False
  then show ?thesis using assms by (auto simp: scan_letter_def assigned_id_def)
next
  case True
  obtain out d2 where t: "try_scan c w d = (out, d2)" by (cases "try_scan c w d")
  have c: "catch_all (out, d2) = (r, d')"
    using assms True t by (simp add: scan_letter_def)
  then have d2: "d2 = d'" by (auto simp: catch_all_def split: sum.splits)
  from try_scan_effect [OF t] c d2 show ?thesis
    by (auto simp: catch_all_def)
qed

subsection \<open>Runs\<close>

lemma assigned_ids_Cons:
  "assigned_ids (r # rs) =
     (case assigned_id r of None \<Rightarrow> assigned_ids rs | Some n \<Rightarrow> n # assigned_ids rs)"
  by (cases "assigned_id r") (simp_all add: assigned_ids_def List.map_filter_simps)

lemma serve_ids:
  "sorted_wrt (<) (assigned_ids (fst (serve c d ws))) \<and>
   (\<forall>n\<in>set (assigned_ids (fst (serve c d ws))). largest_rowid d < n) \<and>
   map letter_id (letters (snd (serve c d ws))) =
     map letter_id (letters d) @ assigned_ids (fst (serve c d ws))"
proof (induction ws arbitrary: d)
  case Nil
  show ?case by (simp add: assigned_ids_def List.map_filter_simps)
next
  case (Cons w ws)
  obtain r d1 where s: "scan_letter c w d = (r, d1)" by (cases "scan_letter c w d")
  obtain rs d2 where t: "serve c d1 ws = (rs, d2)" by (cases "serve c d1 ws")
  have sv: "serve c d (w # ws) = (r # rs, d2)" using s t by simp
  note ih = Cons.IH [of d1, unfolded t, simplified]
  from scan_letter_effect [OF s] show ?case
  proof
    assume "d1 = d \<and> assigned_id r = None"
    then show ?thesis using ih sv by (simp add: assigned_ids_Cons)
  next
    assume a: "assigned_id r = Some (largest_rowid d + 1) \<and>
          largest_rowid d1 = largest_rowid d + 1 \<and>
          letters d1 = letters d @ [last (letters d1)] \<and>
          letter_id (last (letters d1)) = largest_rowid d + 1 \<and>
          scan_date (last (letters d1)) = now w"
    then have l: "map letter_id (letters d1) = map letter_id (letters d) @ [largest_rowid d + 1]"
      by (metis (no_types, lifting) list.simps(8,9) map_append)
    show ?thesis using a l ih sv by (auto simp: assigned_ids_Cons)
  qed
qed

subsection \<open>Values that are not dicts, and text before a separator\<close>

lemma save_and_respond_not_dict:
  "type_name v \<noteq> ''dict'' \<Longrightarrow>
   save_and_respond w response v d = (Inl (attribute_error v ''get''), d)"
  by (cases v) (simp_all add: save_and_respond_def)


section \<open>The claims\<close>

text \<open>
  C1 (as amended). \<open>list-history\<close> answers 200 with every stored record, ordered by
  \<open>scan_date\<close> descending; the query has no second sort key, and records of one
  \<open>scan_date\<close> come in the order they were inserted, the earlier one first. (The claim
  has them reversed, the later one first.)
\<close>

theorem get_history_order:
  "get_history d = (200, JArr (map row_dict (fetchall d))) \<and>
   mset (fetchall d) = mset (letters d) \<and>
   sorted_wrt (\<lambda>a b. scan_date b \<le> scan_date a) (fetchall d) \<and>
   filter (\<lambda>r. scan_date r = s) (fetchall d) = filter (\<lambda>r. scan_date r = s) (letters d)"
  by (simp add: get_history_def jsonify_def fetchall_def mset_order_by sorted_order_by
      filter_order_by)

text \<open>
  Two scans stamped with the same second get the ids 1 and 2, and the history lists
  1 before 2: the record inserted later does not come first.
\<close>

theorem get_history_ties_counterexample:
  "map letter_id (fetchall (snd (serve (stub_env (Some ''key'')) empty_db
      [stub_call (JObj [(''image'', JStr ''AAAA'')]) ''{}'' ''2024-01-05 10:00:00'',
       stub_call (JObj [(''image'', JStr ''AAAA'')]) ''{}'' ''2024-01-05 10:00:00'']))) = [1, 2]
   \<and> map scan_date (fetchall (snd (serve (stub_env (Some ''key'')) empty_db
      [stub_call (JObj [(''image'', JStr ''AAAA'')]) ''{}'' ''2024-01-05 10:00:00'',
       stub_call (JObj [(''image'', JStr ''AAAA'')]) ''{}'' ''2024-01-05 10:00:00''])))
     = [''2024-01-05 10:00:00'', ''2024-01-05 10:00:00'']"
  by code_simp

text \<open>
  C2. A response text of the shape json fence, \<open>J\<close>, closing fence is parsed to exactly
  what \<open>json.loads\<close> gives on \<open>J\<close> (the same value, or the same failure); and when \<open>J\<close>
  itself carries no fence, to exactly what the response \<open>J\<close> without fences is parsed to.
\<close>

theorem fenced_response_parses_alike:
  fixes response :: ai_response
  shows "parse_response c (response\<lparr>resp_text := Inr (json_fence @ J @ closing_fence)\<rparr>)
     = json_loads c J \<and>
   (\<not> startswith J json_fence \<and> \<not> endswith J closing_fence \<longrightarrow>
      parse_response c (response\<lparr>resp_text := Inr (json_fence @ J @ closing_fence)\<rparr>)
        = parse_response c (response\<lparr>resp_text := Inr J\<rparr>))"
  by (simp add: parse_response_def clean_markdown_fenced clean_markdown_plain)

theorem fenced_response_parses_alike_witness:
  "\<not> startswith ''{}'' json_fence \<and> \<not> endswith ''{}'' closing_fence \<and>
   parse_response (stub_env (Some ''key''))
     \<lparr>resp_text = Inr ''```json{}```'', usage_metadata = None\<rparr> = Inr (JObj []) \<and>
   parse_response (stub_env (Some ''key''))
     \<lparr>resp_text = Inr ''{}'', usage_metadata = None\<rparr> = Inr (JObj [])"
proof -
  have h: "\<not> startswith ''{}'' json_fence \<and> \<not> endswith ''{}'' closing_fence"
    by (simp add: startswith_def endswith_def json_fence_def closing_fence_def)
  have p: "parse_response (stub_env (Some ''key''))
             \<lparr>resp_text = Inr ''{}'', usage_metadata = None\<rparr> = Inr (JObj [])"
    using h by (simp add: parse_response_def clean_markdown_def stub_env_def)
  show ?thesis
    using h p fenced_response_parses_alike
      [where c = "stub_env (Some ''key'')" and J = "''{}''"
         and response = "\<lparr>resp_text = Inr [], usage_metadata = None\<rparr>"]
    by (auto simp: json_fence_def closing_fence_def)
qed



text \<open>
  C4. With no key configured (the variable unset or empty), every call of \<open>/api/scan\<close>
  answers 500 with the configuration message, whatever the request, the service or the
  clock would have been, and the table is returned as it was.
\<close>

theorem no_key_configuration_error:
  assumes "\<not> key_configured (GEMINI_API_KEY c)"
  shows "scan_letter c w d =
           ((500, JObj [(''error'',
               JStr ''Gemini API Key not configured. Please check .env file.'')]), d)"
  using assms by (simp add: scan_letter_def)

theorem no_key_configuration_error_witness:
  "\<not> key_configured (GEMINI_API_KEY (stub_env None)) \<and>
   scan_letter (stub_env None)
     (stub_call (JObj [(''image'', JStr ''AAAA'')]) ''{}'' ''2024-01-05 10:00:00'') empty_db =
     ((500, JObj [(''error'',
         JStr ''Gemini API Key not configured. Please check .env file.'')]), empty_db)"
proof -
  have h: "\<not> key_configured (GEMINI_API_KEY (stub_env None))"
    by (simp add: key_configured_def stub_env_def)
  show ?thesis
    using h no_key_configuration_error [OF h] by simp
qed

text \<open>
  C5 (as amended). With a key configured, a request whose body is a JSON object with no
  \<open>image\<close> entry, or with one that is empty (the empty string, or any other value Python
  counts as false), is answered 400 with \<open>No image provided\<close>, and the table is returned
  as it was. (The claim has this for every such request; line 50 tests the key first.)
\<close>

theorem missing_image_client_error:
  assumes "key_configured (GEMINI_API_KEY c)"
    and "request_json w = Inr (JObj body)"
    and "\<not> truthy (dict_get body ''image'')"
  shows "scan_letter c w d = ((400, JObj [(''error'', JStr ''No image provided'')]), d)"
  using assms by (simp add: scan_letter_def try_scan_def py_get_def catch_all_def)

theorem missing_image_client_error_witness:
  "scan_letter (stub_env (Some ''key'')) (stub_call (JObj []) ''{}'' ''2024-01-05 10:00:00'')
     empty_db = ((400, JObj [(''error'', JStr ''No image provided'')]), empty_db) \<and>
   scan_letter (stub_env (Some ''key''))
     (stub_call (JObj [(''image'', JStr [])]) ''{}'' ''2024-01-05 10:00:00'')
     empty_db = ((400, JObj [(''error'', JStr ''No image provided'')]), empty_db)"
  using missing_image_client_error
      [where c = "stub_env (Some ''key'')" and body = "[]" and d = empty_db
         and w = "stub_call (JObj []) ''{}'' ''2024-01-05 10:00:00''"]
    missing_image_client_error
      [where c = "stub_env (Some ''key'')" and body = "[(''image'', JStr [])]" and d = empty_db
         and w = "stub_call (JObj [(''image'', JStr [])]) ''{}'' ''2024-01-05 10:00:00''"]
  by (simp add: stub_env_def stub_call_def key_configured_def dict_get_def)

text \<open>
  The same request with no key configured is answered 500, not 400.
\<close>

theorem missing_image_without_key_counterexample:
  "scan_letter (stub_env None) (stub_call (JObj []) ''{}'' ''2024-01-05 10:00:00'') empty_db =
     ((500, JObj [(''error'',
         JStr ''Gemini API Key not configured. Please check .env file.'')]), empty_db)"
  by (simp add: scan_letter_def stub_env_def key_configured_def)

text \<open>
  C6. In any sequence of \<open>/api/scan\<close> calls against one database file, the ids reported
  by the successful calls are strictly increasing, hence never repeated; each is greater
  than every id already in the table and than the recorded sequence value; and they are
  exactly the ids of the rows added, in order.
\<close>

theorem assigned_ids_increase:
  "sorted_wrt (<) (assigned_ids (fst (serve c d ws))) \<and>
   distinct (assigned_ids (fst (serve c d ws))) \<and>
   (\<forall>n\<in>set (assigned_ids (fst (serve c d ws))).
      sqlite_sequence d < n \<and> (\<forall>r\<in>set (letters d). letter_id r < n)) \<and>
   map letter_id (letters (snd (serve c d ws))) =
     map letter_id (letters d) @ assigned_ids (fst (serve c d ws))"
proof -
  note s = serve_ids [of c d ws]
  have "distinct (assigned_ids (fst (serve c d ws)))"
    using s strict_sorted_iff by blast
  moreover have "sqlite_sequence d < n \<and> (\<forall>r\<in>set (letters d). letter_id r < n)"
    if "n \<in> set (assigned_ids (fst (serve c d ws)))" for n
  proof -
    have "largest_rowid d < n" using s that by blast
    then show ?thesis
      using sequence_le_largest [of d] letter_id_le_largest [of _ d] by fastforce
  qed
  ultimately show ?thesis using s by blast
qed

theorem assigned_ids_increase_witness:
  "assigned_ids (fst (serve (stub_env (Some ''key'')) used_db
      [stub_call (JObj [(''image'', JStr ''AAAA'')]) ''{}'' ''2024-01-05 10:00:00'',
       stub_call (JObj []) ''{}'' ''2024-01-05 10:00:01'',
       stub_call (JObj [(''image'', JStr ''AAAA'')]) ''{}'' ''2024-01-05 10:00:02''])) = [8, 9]
   \<and> map letter_id (letters (snd (serve (stub_env (Some ''key'')) used_db
      [stub_call (JObj [(''image'', JStr ''AAAA'')]) ''{}'' ''2024-01-05 10:00:00'',
       stub_call (JObj []) ''{}'' ''2024-01-05 10:00:01'',
       stub_call (JObj [(''image'', JStr ''AAAA'')]) ''{}'' ''2024-01-05 10:00:02'']))) = [5, 8, 9]"
proof -
  have v: "assigned_ids (fst (serve (stub_env (Some ''key'')) used_db
      [stub_call (JObj [(''image'', JStr ''AAAA'')]) ''{}'' ''2024-01-05 10:00:00'',
       stub_call (JObj []) ''{}'' ''2024-01-05 10:00:01'',
       stub_call (JObj [(''image'', JStr ''AAAA'')]) ''{}'' ''2024-01-05 10:00:02''])) = [8, 9]"
    by code_simp
  have l: "map letter_id (letters used_db) = [5]"
    by (simp add: used_db_def)
  show ?thesis
    using v l assigned_ids_increase [of "stub_env (Some ''key'')" used_db
      "[stub_call (JObj [(''image'', JStr ''AAAA'')]) ''{}'' ''2024-01-05 10:00:00'',
       stub_call (JObj []) ''{}'' ''2024-01-05 10:00:01'',
       stub_call (JObj [(''image'', JStr ''AAAA'')]) ''{}'' ''2024-01-05 10:00:02'']"]
    by simp
qed

text \<open>
  C7. \<open>/api/status\<close> always answers 200. With no key configured it reports
  \<open>gemini_connected\<close> false and makes no call to the service; when the probe raises, it
  reports \<open>gemini_connected\<close> false.
\<close>

theorem check_status_never_fails:
  "fst (fst (check_status c list_models)) = 200 \<and>
   (\<not> key_configured (GEMINI_API_KEY c) \<longrightarrow>
      check_status c list_models = (jsonify (status_body False), 0)) \<and>
   (list_models = Inl e \<longrightarrow> fst (check_status c list_models) = jsonify (status_body False))"
  by (auto simp: check_status_def jsonify_def split: sum.splits)

theorem check_status_never_fails_witness:
  "check_status (stub_env None) (Inr ()) = ((200, status_body False), 0) \<and>
   fst (check_status (stub_env (Some ''key'')) (Inl ''403 API key not valid''))
     = (200, status_body False)"
  using check_status_never_fails [of "stub_env None" "Inr ()"]
    check_status_never_fails [of "stub_env (Some ''key'')" "Inl ''403 API key not valid''"
      "''403 API key not valid''"]
  by (simp add: stub_env_def key_configured_def jsonify_def)

text \<open>
  C8. When the request has come as far as an answer from the service and the answer parses
  to a value that is not a dict (a list, a string, a number, \<open>null\<close>), the first
  \<open>.get\<close> raises; the handler answers 500 with only that message in the body, and the
  table is returned as it was.
\<close>

theorem non_object_response_generic_error:
  assumes "key_configured (GEMINI_API_KEY c)"
    and "request_json w = Inr data"
    and "py_get data ''image'' = Inr image_data"
    and "truthy image_data"
    and "remove_header image_data = Inr payload"
    and "decode_image c payload = Inr image_bytes"
    and "generate_content w image_bytes = Inr response"
    and "parse_response c response = Inr v"
    and "type_name v \<noteq> ''dict''"
  shows "scan_letter c w d = ((500, JObj [(''error'', JStr (attribute_error v ''get''))]), d)"
  using assms
  by (simp add: scan_letter_def try_scan_def decode_and_extract_def handle_response_def
      save_and_respond_not_dict catch_all_def)

theorem non_object_response_generic_error_witness:
  "scan_letter (stub_env (Some ''key''))
     (stub_call (JObj [(''image'', JStr ''data:image/jpeg;base64,AAAA'')])
        ''[]'' ''2024-01-05 10:00:00'') used_db =
     ((500, JObj [(''error'', JStr (CHR 0x27 # ''list'' @ CHR 0x27 #
          '' object has no attribute '' @ CHR 0x27 # ''get'' @ [CHR 0x27]))]), used_db)"
proof -
  have rh: "remove_header (JStr ''data:image/jpeg;base64,AAAA'') = Inr (JStr ''AAAA'')"
    by (simp add: remove_header_def py_index_def)
  have pr: "parse_response (stub_env (Some ''key''))
              \<lparr>resp_text = Inr ''[]'', usage_metadata = None\<rparr> = Inr (JArr [])"
    by (simp add: parse_response_def clean_markdown_def startswith_def endswith_def
        json_fence_def closing_fence_def stub_env_def)
  show ?thesis
    using non_object_response_generic_error
      [where c = "stub_env (Some ''key'')"
         and w = "stub_call (JObj [(''image'', JStr ''data:image/jpeg;base64,AAAA'')])
                    ''[]'' ''2024-01-05 10:00:00''"
         and data = "JObj [(''image'', JStr ''data:image/jpeg;base64,AAAA'')]"
         and image_data = "JStr ''data:image/jpeg;base64,AAAA''"
         and payload = "JStr ''AAAA''"
         and image_bytes = "[CHR 0x00, CHR 0x00, CHR 0x00]"
         and response = "\<lparr>resp_text = Inr ''[]'', usage_metadata = None\<rparr>"
         and v = "JArr []"
         and d = used_db, OF _ _ _ _ rh _ _ pr]
    by (simp add: stub_env_def stub_call_def key_configured_def py_get_def dict_get_def
        decode_image_def attribute_error_def quoted_def)
qed





end
